theory Spec2Isabelle
  imports Main
begin

section \<open>Data model of static\_dhcp\_to\_dns.py\<close>

text \<open>
  The script synchronises the static DHCP leases of an OPNsense configuration with a
  dynamic DNS server. One pass of its main loop reads the leases
  (\<^verbatim>\<open>get_static_leases\<close>), compares them with a SQLite cache (\<^verbatim>\<open>db_compare\<close>),
  writes an nsupdate command file and runs nsupdate on it (\<^verbatim>\<open>dns_update\<close>) and
  finally updates the cache (\<^verbatim>\<open>db_update\<close>). Each function is embedded below
  under its own name; exceptions are values of \<open>error\<close>, the cache file and the
  exit status of nsupdate are explicit arguments.
\<close>

datatype LeaseState = UNCHANGED | NEW | UPDATED | DELETED

text \<open>The values of the \<^verbatim>\<open>IntEnum\<close>; \<^verbatim>\<open>db_compare\<close> sorts by them.\<close>

fun state_value :: "LeaseState \<Rightarrow> nat" where
  "state_value UNCHANGED = 1"
| "state_value NEW = 2"
| "state_value UPDATED = 3"
| "state_value DELETED = 4"

datatype LeaseType = UNKNOWN | DHCP | STATIC

text \<open>
  A \<^verbatim>\<open>Lease\<close> object. Every field starts as \<^verbatim>\<open>None\<close>, so the three text fields
  are optional strings. The class attribute \<^verbatim>\<open>type\<close> is never assigned by
  \<^verbatim>\<open>__init__\<close> and never read, so it is not a field here.
\<close>

record Lease =
  domain :: "string option"
  hostname :: "string option"
  ip :: "string option"
  state :: LeaseState

text \<open>
  The first positional argument of \<^verbatim>\<open>Lease(...)\<close>. Python does not type it: the
  callers pass a \<^verbatim>\<open>LeaseType\<close> in \<^verbatim>\<open>get_static_leases\<close> and a string in
  \<^verbatim>\<open>db_compare\<close>.
\<close>

datatype type_arg = TypeVal LeaseType | StrVal string

text \<open>
  \<^verbatim>\<open>def __init__(self, type, domain=None, hostname=None, ip=None)\<close>: the argument
  \<^verbatim>\<open>type\<close> is dropped, the state is the class default \<^verbatim>\<open>UNCHANGED\<close>.
\<close>

definition Lease_init ::
  "type_arg \<Rightarrow> string option \<Rightarrow> string option \<Rightarrow> string option \<Rightarrow> Lease" where
  "Lease_init type d h i = \<lparr>domain = d, hostname = h, ip = i, state = UNCHANGED\<rparr>"

datatype error =
    Exception string
  | AttributeError
  | OperationalError
  | ProgrammingError
  | IntegrityError
  | CalledProcessError

text \<open>\<^verbatim>\<open>'%s' % v\<close> for a value that is a string or \<^verbatim>\<open>None\<close>.\<close>

definition py_str :: "string option \<Rightarrow> string" where
  "py_str v = (case v of None \<Rightarrow> ''None'' | Some s \<Rightarrow> s)"

text \<open>Truth value of a string or \<^verbatim>\<open>None\<close>: false for \<^verbatim>\<open>None\<close> and for the empty string.\<close>

definition truthy :: "string option \<Rightarrow> bool" where
  "truthy v = (case v of None \<Rightarrow> False | Some s \<Rightarrow> s \<noteq> [])"

section \<open>get\_static\_leases\<close>

text \<open>
  The argument of the model is the list of lines of xmllint's output, each already
  decoded and right-stripped (\<^verbatim>\<open>lineUtf\<close>).
\<close>

definition startswith :: "string \<Rightarrow> string \<Rightarrow> bool" where
  "startswith s p = (take (length p) s = p)"

text \<open>\<^verbatim>\<open>s[a:][:-b]\<close> for positive \<open>a\<close> and \<open>b\<close>.\<close>

definition slice :: "nat \<Rightarrow> nat \<Rightarrow> string \<Rightarrow> string" where
  "slice a b s = take (length (drop a s) - b) (drop a s)"

text \<open>\<^verbatim>\<open>sl.domain and sl.ip and sl.hostname\<close>\<close>

definition complete :: "Lease \<Rightarrow> bool" where
  "complete sl = (truthy (domain sl) \<and> truthy (ip sl) \<and> truthy (hostname sl))"

text \<open>
  One iteration of the loop over the lines. The state is the lease under
  construction \<^verbatim>\<open>sl\<close> and the list \<^verbatim>\<open>slList\<close>.
\<close>

definition read_line :: "Lease \<times> Lease list \<Rightarrow> string \<Rightarrow> error + Lease \<times> Lease list" where
  "read_line st lineUtf =
     (case st of (sl, slList) \<Rightarrow>
       (case
          (if startswith lineUtf ''<domain>'' then
             Inr (Lease_init (TypeVal STATIC) (Some (slice 8 9 lineUtf)) None None)
           else if startswith lineUtf ''<ipaddr>'' then
             (if ip sl = None then Inr (sl\<lparr>ip := Some (slice 8 9 lineUtf)\<rparr>)
              else Inl (Exception (''Static lease IPADDR mismatch in domain '' @ py_str (domain sl))))
           else if startswith lineUtf ''<hostname>'' then
             (if hostname sl = None then Inr (sl\<lparr>hostname := Some (slice 10 11 lineUtf)\<rparr>)
              else Inl (Exception (''Static lease HOSTNAME mismatch in domain '' @ py_str (domain sl))))
           else Inr sl)
        of
          Inl e \<Rightarrow> Inl e
        | Inr sl' \<Rightarrow>
            if complete sl' then
              Inr (Lease_init (TypeVal STATIC) (domain sl') None None, slList @ [sl'])
            else Inr (sl', slList)))"

fun read_lines :: "Lease \<times> Lease list \<Rightarrow> string list \<Rightarrow> error + Lease \<times> Lease list" where
  "read_lines st [] = Inr st"
| "read_lines st (l # ls) =
     (case read_line st l of Inl e \<Rightarrow> Inl e | Inr st' \<Rightarrow> read_lines st' ls)"

definition get_static_leases :: "string list \<Rightarrow> error + Lease list" where
  "get_static_leases lines =
     (case read_lines (Lease_init (TypeVal STATIC) None None None, []) lines of
        Inl e \<Rightarrow> Inl e
      | Inr (sl, slList) \<Rightarrow> Inr (if complete sl then slList @ [sl] else slList))"

text \<open>
  The lines the XPath expression of \<^verbatim>\<open>get_static_leases\<close> selects from a
  configuration, in document order: the \<^verbatim>\<open>domain\<close> of each DHCP interface followed
  by the \<^verbatim>\<open>hostname\<close> and \<^verbatim>\<open>ipaddr\<close> children of each of its \<^verbatim>\<open>staticmap\<close>
  entries.
\<close>

datatype field = Ipaddr string | Hostname string

fun field_line :: "field \<Rightarrow> string" where
  "field_line (Ipaddr a) = ''<ipaddr>'' @ a @ ''</ipaddr>''"
| "field_line (Hostname h) = ''<hostname>'' @ h @ ''</hostname>''"

definition domain_line :: "string \<Rightarrow> string" where
  "domain_line d = ''<domain>'' @ d @ ''</domain>''"

fun is_ipaddr :: "field \<Rightarrow> bool" where
  "is_ipaddr (Ipaddr a) = True"
| "is_ipaddr (Hostname h) = False"

text \<open>A staticmap entry that carries more than one address or more than one hostname.\<close>

definition repeats_field :: "field list \<Rightarrow> bool" where
  "repeats_field entry =
     (1 < length (filter is_ipaddr entry) \<or> 1 < length (filter (\<lambda>f. \<not> is_ipaddr f) entry))"

definition xpath_lines :: "(string \<times> field list list) list \<Rightarrow> string list" where
  "xpath_lines interfaces =
     concat (map (\<lambda>(d, entries). domain_line d # map field_line (concat entries)) interfaces)"

section \<open>dns\_update\<close>

text \<open>
  The nsupdate command file, one value per line written:
  \<^verbatim>\<open>update delete NAME\<close>, \<^verbatim>\<open>update add NAME TTL TYPE DATA\<close> and \<^verbatim>\<open>send\<close>.
\<close>

datatype rrtype = RR_A | RR_PTR

datatype nsupdate_line =
    UpdateDelete string
  | UpdateAdd string nat rrtype string
  | Send

definition dnsTtl :: nat where
  "dnsTtl = 3600"

text \<open>\<^verbatim>\<open>s.split(c)\<close> and \<^verbatim>\<open>sep.join(xs)\<close> of Python.\<close>

fun str_split :: "char \<Rightarrow> string \<Rightarrow> string list" where
  "str_split c [] = [[]]"
| "str_split c (x # xs) =
     (if x = c then [] # str_split c xs
      else (case str_split c xs of [] \<Rightarrow> [[x]] | y # ys \<Rightarrow> (x # y) # ys))"

fun str_join :: "string \<Rightarrow> string list \<Rightarrow> string" where
  "str_join sep [] = []"
| "str_join sep [x] = x"
| "str_join sep (x # y # ys) = x @ sep @ str_join sep (y # ys)"

text \<open>\<^verbatim>\<open>'%s.%s.' % (lease.hostname, lease.domain)\<close>\<close>

definition fqdn :: "Lease \<Rightarrow> string" where
  "fqdn lease = py_str (hostname lease) @ ''.'' @ py_str (domain lease) @ ''.''"

text \<open>\<^verbatim>\<open>'.'.join(ip.split('.')[::-1]) + '.in-addr.arpa'\<close>\<close>

definition ptr_name :: "string \<Rightarrow> string" where
  "ptr_name i = str_join ''.'' (rev (str_split (CHR ''.'') i)) @ ''.in-addr.arpa''"

text \<open>
  The body of the loop of \<^verbatim>\<open>dns_update\<close> for one lease. \<^verbatim>\<open>lease.ip.split\<close>
  raises \<^verbatim>\<open>AttributeError\<close> when \<^verbatim>\<open>lease.ip\<close> is \<^verbatim>\<open>None\<close>; the exception leaves
  the function before nsupdate is run, so the lines already written are never sent.
\<close>

definition lease_lines :: "Lease \<Rightarrow> error + nsupdate_line list" where
  "lease_lines lease =
     (case ip lease of
        None \<Rightarrow> Inl AttributeError
      | Some i \<Rightarrow>
          Inr ([UpdateDelete (fqdn lease)]
               @ (if state lease \<noteq> DELETED
                  then [UpdateAdd (fqdn lease) dnsTtl RR_A (py_str (ip lease))] else [])
               @ [Send]
               @ [UpdateDelete (ptr_name i)]
               @ (if state lease \<noteq> DELETED
                  then [UpdateAdd (ptr_name i) dnsTtl RR_PTR (fqdn lease)] else [])
               @ [Send]))"

fun write_file :: "Lease list \<Rightarrow> error + nsupdate_line list" where
  "write_file [] = Inr []"
| "write_file (lease # leases) =
     (case lease_lines lease of
        Inl e \<Rightarrow> Inl e
      | Inr ls \<Rightarrow> (case write_file leases of Inl e \<Rightarrow> Inl e | Inr rest \<Rightarrow> Inr (ls @ rest)))"

text \<open>
  \<^verbatim>\<open>subprocess.check_call\<close> raises \<^verbatim>\<open>CalledProcessError\<close> when nsupdate exits
  with a non-zero status; the argument \<open>nsupdate\<close> says for which command files it
  exits with status 0. The model returns the file that was sent.
\<close>

definition dns_update ::
  "(nsupdate_line list \<Rightarrow> bool) \<Rightarrow> Lease list \<Rightarrow> error + nsupdate_line list" where
  "dns_update nsupdate leases =
     (case write_file leases of
        Inl e \<Rightarrow> Inl e
      | Inr f \<Rightarrow> if nsupdate f then Inr f else Inl CalledProcessError)"

text \<open>
  What a command file does to the records of the DNS server: a map from names to the
  records at that name. \<^verbatim>\<open>update delete NAME\<close> removes all records at the name,
  \<^verbatim>\<open>update add\<close> adds one, \<^verbatim>\<open>send\<close> closes a group.
\<close>

type_synonym rr = "nat \<times> rrtype \<times> string"

type_synonym dns_store = "string \<Rightarrow> rr set"

fun apply_line :: "nsupdate_line \<Rightarrow> dns_store \<Rightarrow> dns_store" where
  "apply_line (UpdateDelete n) s = s(n := {})"
| "apply_line (UpdateAdd n ttl ty d) s = s(n := insert (ttl, ty, d) (s n))"
| "apply_line Send s = s"

definition apply_file :: "nsupdate_line list \<Rightarrow> dns_store \<Rightarrow> dns_store" where
  "apply_file f s = fold apply_line f s"

section \<open>The lease cache\<close>

text \<open>
  The table \<^verbatim>\<open>leases (domain, hostname, ip)\<close> with primary key
  \<^verbatim>\<open>(domain, hostname)\<close> is a list of rows in insertion order. The cache file is
  either one \<^verbatim>\<open>sqlite3.connect\<close> cannot open, one on which the
  \<^verbatim>\<open>CREATE TABLE IF NOT EXISTS\<close> statement fails, or a database with that table.
\<close>

type_synonym row = "string \<times> string \<times> string"

datatype cache_db = OpenFails | InitFails | Leases "row list"

datatype connection = Closed | Open "row list"

text \<open>
  The second component says whether the error message was printed. When
  \<^verbatim>\<open>connect\<close> raises, \<^verbatim>\<open>con\<close> is still \<^verbatim>\<open>None\<close>; when the \<^verbatim>\<open>execute\<close> raises,
  \<^verbatim>\<open>con\<close> is the connection, which the handler closes and the function returns.
\<close>

definition get_db_connection :: "cache_db \<Rightarrow> connection option \<times> bool" where
  "get_db_connection db =
     (case db of
        OpenFails \<Rightarrow> (None, True)
      | InitFails \<Rightarrow> (Some Closed, True)
      | Leases rows \<Rightarrow> (Some (Open rows), False))"

text \<open>
  \<^verbatim>\<open>con.cursor()\<close>: \<^verbatim>\<open>AttributeError\<close> on \<^verbatim>\<open>None\<close>, \<^verbatim>\<open>ProgrammingError\<close> on a
  closed connection.
\<close>

definition cursor :: "connection option \<Rightarrow> error + row list" where
  "cursor con =
     (case con of
        None \<Rightarrow> Inl AttributeError
      | Some Closed \<Rightarrow> Inl ProgrammingError
      | Some (Open rows) \<Rightarrow> Inr rows)"

definition row_key :: "row \<Rightarrow> string \<times> string" where
  "row_key r = (fst r, fst (snd r))"

text \<open>
  \<^verbatim>\<open>SELECT * FROM leases WHERE domain = ? AND hostname = ?\<close> with \<^verbatim>\<open>fetchone()\<close>.
  A parameter that is \<^verbatim>\<open>None\<close> is bound to NULL, which equals nothing.
\<close>

definition select_lease :: "row list \<Rightarrow> string option \<Rightarrow> string option \<Rightarrow> row option" where
  "select_lease rows d h =
     (case d of
        None \<Rightarrow> None
      | Some d' \<Rightarrow>
          (case h of
             None \<Rightarrow> None
           | Some h' \<Rightarrow> find (\<lambda>r. row_key r = (d', h')) rows))"

text \<open>
  \<^verbatim>\<open>SELECT * FROM leases WHERE NOT (domain, hostname) IN (VALUES ...)\<close> with
  \<^verbatim>\<open>fetchall()\<close>. The values are not bound as parameters: each lease is formatted into
  the statement as \<^verbatim>\<open>("%s","%s") % (x.domain, x.hostname)\<close>, so SQLite reads every value
  as a double-quoted token. Such a token is an identifier. When it names a column of
  \<^verbatim>\<open>leases\<close> (names compare without regard to the case of the ASCII letters) it is
  that column of the row under test; when it names nothing it is read as the string
  literal with that text.
\<close>

definition to_lower :: "char \<Rightarrow> char" where
  "to_lower c =
     (case map_of (zip ''ABCDEFGHIJKLMNOPQRSTUVWXYZ'' ''abcdefghijklmnopqrstuvwxyz'') c of
        Some l \<Rightarrow> l
      | None \<Rightarrow> c)"

datatype sql_expr = Literal string | Column_domain | Column_hostname | Column_ip

text \<open>
  What SQLite reads in \<^verbatim>\<open>"%s" % v\<close>. The model gives no reading (\<open>None\<close>) in three
  cases, which it does not cover: \<open>v\<close> contains a double quote (the token ends there and
  the rest of \<open>v\<close> is read as SQL), \<open>v\<close> contains the character NUL, or \<open>v\<close> is one of
  \<^verbatim>\<open>rowid\<close>, \<^verbatim>\<open>oid\<close> and \<^verbatim>\<open>_rowid_\<close>, the names of the row number of the table, which
  is not part of the rows of the model.
\<close>

definition quoted_token :: "string \<Rightarrow> sql_expr option" where
  "quoted_token v =
     (let name = map to_lower v in
      if CHR 0x22 \<in> set v \<or> CHR 0x00 \<in> set v
         \<or> name = ''rowid'' \<or> name = ''oid'' \<or> name = ''_rowid_'' then None
      else if name = ''domain'' then Some Column_domain
      else if name = ''hostname'' then Some Column_hostname
      else if name = ''ip'' then Some Column_ip
      else Some (Literal v))"

fun sql_value :: "row \<Rightarrow> sql_expr \<Rightarrow> string" where
  "sql_value r (Literal s) = s"
| "sql_value r Column_domain = fst r"
| "sql_value r Column_hostname = fst (snd r)"
| "sql_value r Column_ip = snd (snd r)"

definition quoted_pair :: "string \<times> string \<Rightarrow> (sql_expr \<times> sql_expr) option" where
  "quoted_pair v =
     (case quoted_token (fst v) of
        None \<Rightarrow> None
      | Some d \<Rightarrow> (case quoted_token (snd v) of None \<Rightarrow> None | Some h \<Rightarrow> Some (d, h)))"

text \<open>
  The result of the statement: \<open>None\<close> when the model has no reading of one of the
  values, otherwise what \<^verbatim>\<open>execute(...).fetchall()\<close> does. With no values the
  statement is \<^verbatim>\<open>... IN (VALUES )\<close>, which SQLite rejects as a syntax error
  (\<^verbatim>\<open>OperationalError\<close>). Otherwise a row is selected when its key equals none of the
  pairs, each pair evaluated at that row.
\<close>

definition select_not_in ::
  "row list \<Rightarrow> (string \<times> string) list \<Rightarrow> (error + row list) option" where
  "select_not_in rows vals =
     (if vals = [] then Some (Inl OperationalError)
      else
        (case those (map quoted_pair vals) of
           None \<Rightarrow> None
         | Some pairs \<Rightarrow>
             Some (Inr (filter
               (\<lambda>r. row_key r \<notin> set (map (\<lambda>p. (sql_value r (fst p), sql_value r (snd p))) pairs))
               rows))))"

text \<open>\<^verbatim>\<open>DELETE FROM leases WHERE domain = ? AND hostname = ?\<close>\<close>

definition delete_row :: "string option \<times> string option \<Rightarrow> row list \<Rightarrow> row list" where
  "delete_row k rows =
     (case k of
        (Some d, Some h) \<Rightarrow> filter (\<lambda>r. row_key r \<noteq> (d, h)) rows
      | _ \<Rightarrow> rows)"

text \<open>
  \<^verbatim>\<open>INSERT OR REPLACE INTO leases VALUES (?, ?, ?)\<close>: a row with the same key is
  removed and the new row is added at the end; a NULL in a \<^verbatim>\<open>NOT NULL\<close> column
  raises \<^verbatim>\<open>IntegrityError\<close>.
\<close>

definition insert_or_replace ::
  "string option \<times> string option \<times> string option \<Rightarrow> row list \<Rightarrow> error + row list" where
  "insert_or_replace v rows =
     (case v of
        (Some d, Some h, Some i) \<Rightarrow> Inr (filter (\<lambda>r. row_key r \<noteq> (d, h)) rows @ [(d, h, i)])
      | _ \<Rightarrow> Inl IntegrityError)"

fun insert_many ::
  "(string option \<times> string option \<times> string option) list \<Rightarrow> row list \<Rightarrow> error + row list" where
  "insert_many [] rows = Inr rows"
| "insert_many (v # vs) rows =
     (case insert_or_replace v rows of Inl e \<Rightarrow> Inl e | Inr rows' \<Rightarrow> insert_many vs rows')"

section \<open>db\_compare and db\_update\<close>

text \<open>The body of the first loop of \<^verbatim>\<open>db_compare\<close>.\<close>

definition classify :: "row list \<Rightarrow> Lease \<Rightarrow> Lease" where
  "classify rows lease =
     (case select_lease rows (domain lease) (hostname lease) of
        Some record \<Rightarrow>
          (if Some (snd (snd record)) \<noteq> ip lease then lease\<lparr>state := UPDATED\<rparr> else lease)
      | None \<Rightarrow> lease\<lparr>state := NEW\<rparr>)"

text \<open>
  The lease \<^verbatim>\<open>db_compare\<close> builds for a cached record that is not among the
  current leases: \<^verbatim>\<open>Lease(record[0], record[1], record[2])\<close> with the state
  \<^verbatim>\<open>DELETED\<close>.
\<close>

definition deleted_lease :: "row \<Rightarrow> Lease" where
  "deleted_lease record =
     (Lease_init (StrVal (fst record)) (Some (fst (snd record))) (Some (snd (snd record))) None)
       \<lparr>state := DELETED\<rparr>"

text \<open>
  \<^verbatim>\<open>db_compare\<close> changes the list \<^verbatim>\<open>leases\<close> in place; the model returns the list
  as it is at the end, after \<^verbatim>\<open>leases.sort(key=lambda x: x.state)\<close>. The result is
  \<open>None\<close> when the model has no reading of the statement that selects the deleted
  records.
\<close>

definition db_compare :: "cache_db \<Rightarrow> Lease list \<Rightarrow> (error + Lease list) option" where
  "db_compare db leases =
     (case cursor (fst (get_db_connection db)) of
        Inl e \<Rightarrow> Some (Inl e)
      | Inr rows \<Rightarrow>
          (let marked = map (classify rows) leases in
           case select_not_in rows (map (\<lambda>x. (py_str (domain x), py_str (hostname x))) marked) of
             None \<Rightarrow> None
           | Some (Inl e) \<Rightarrow> Some (Inl e)
           | Some (Inr records) \<Rightarrow>
               Some (Inr (sort_key (\<lambda>x. state_value (state x))
                            (marked @ map deleted_lease records)))))"

text \<open>
  \<^verbatim>\<open>db_update\<close> returns the cache file after \<^verbatim>\<open>con.commit()\<close>; an exception
  before the commit leaves the file as it was.
\<close>

definition db_update :: "cache_db \<Rightarrow> Lease list \<Rightarrow> error + cache_db" where
  "db_update db leases =
     (let sqlDeletedLeases =
            map (\<lambda>y. (domain y, hostname y)) (filter (\<lambda>x. state x = DELETED) leases);
          sqlModifiedLeases =
            map (\<lambda>y. (domain y, hostname y, ip y))
              (filter (\<lambda>x. state x = UPDATED \<or> state x = NEW) leases)
      in
        case cursor (fst (get_db_connection db)) of
          Inl e \<Rightarrow> Inl e
        | Inr rows \<Rightarrow>
            (case insert_many sqlModifiedLeases (fold delete_row sqlDeletedLeases rows) of
               Inl e \<Rightarrow> Inl e
             | Inr rows' \<Rightarrow> Inr (Leases rows')))"

section \<open>One pass of the main loop\<close>

text \<open>
  The result of a pass is the exception that ended it or what it did, together with
  the cache file afterwards. \<open>Applied f\<close> carries the command file that was sent to
  nsupdate. The result is \<open>None\<close> when that of \<^verbatim>\<open>db_compare\<close> is.
\<close>

datatype outcome = UpToDate | Applied "nsupdate_line list"

definition processableLeases :: "bool \<Rightarrow> Lease list \<Rightarrow> Lease list" where
  "processableLeases dnsForceUpdate leases =
     (if dnsForceUpdate then leases else filter (\<lambda>x. state x \<noteq> UNCHANGED) leases)"

definition cycle ::
  "bool \<Rightarrow> (nsupdate_line list \<Rightarrow> bool) \<Rightarrow> string list \<Rightarrow> cache_db
     \<Rightarrow> ((error + outcome) \<times> cache_db) option" where
  "cycle dnsForceUpdate nsupdate lines db =
     (case get_static_leases lines of
        Inl e \<Rightarrow> Some (Inl e, db)
      | Inr fetched \<Rightarrow>
          (case db_compare db fetched of
             None \<Rightarrow> None
           | Some (Inl e) \<Rightarrow> Some (Inl e, db)
           | Some (Inr leases) \<Rightarrow>
               if length (processableLeases dnsForceUpdate leases) > 0 then
                 (case dns_update nsupdate leases of
                    Inl e \<Rightarrow> Some (Inl e, db)
                  | Inr f \<Rightarrow>
                      (case db_update db leases of
                         Inl e \<Rightarrow> Some (Inl e, db)
                       | Inr db' \<Rightarrow> Some (Inr (Applied f), db')))
               else Some (Inr UpToDate, db)))"

section \<open>The effect of a command file\<close>

text \<open>
  A DNS store in which the names of a finite map are replaced by the given record
  sets: the effect of a sequence of delete-then-add groups.
\<close>

definition override :: "dns_store \<Rightarrow> (string \<rightharpoonup> rr set) \<Rightarrow> dns_store" where
  "override s m = (\<lambda>n. case m n of None \<Rightarrow> s n | Some X \<Rightarrow> X)"

section \<open>Fetching the leases\<close>

text \<open>An exception in a prefix of the lines ends the function.\<close>

lemma read_lines_append:
  "read_lines st (a @ b) = (case read_lines st a of Inl e \<Rightarrow> Inl e | Inr st' \<Rightarrow> read_lines st' b)"
  by (induction a arbitrary: st) (auto split: sum.splits)

lemma read_line_domain:
  "read_line (sl, slList) (domain_line d)
     = Inr (Lease_init (TypeVal STATIC) (Some d) None None, slList)"
  by (simp add: read_line_def domain_line_def startswith_def slice_def complete_def
      Lease_init_def truthy_def)

lemma read_lines_two_ipaddr:
  "read_lines (sl, slList) (domain_line d # field_line (Ipaddr a) # field_line (Ipaddr b) # post)
     = Inl (Exception (''Static lease IPADDR mismatch in domain '' @ d))"
  by (simp add: read_line_domain)
     (simp add: read_line_def startswith_def slice_def complete_def Lease_init_def truthy_def
      py_str_def)

lemma read_lines_two_hostname:
  "read_lines (sl, slList) (domain_line d # field_line (Hostname a) # field_line (Hostname b) # post)
     = Inl (Exception (''Static lease HOSTNAME mismatch in domain '' @ d))"
  by (simp add: read_line_domain)
     (simp add: read_line_def startswith_def slice_def complete_def Lease_init_def truthy_def
      py_str_def)

lemma read_lines_append_raises:
  assumes "\<And>sl slList. \<exists>e. read_lines (sl, slList) b = Inl e"
  shows "\<exists>e. read_lines st (a @ b) = Inl e"
proof (cases "read_lines st a")
  case (Inl e)
  then show ?thesis by (simp add: read_lines_append)
next
  case (Inr st')
  obtain sl slList where "st' = (sl, slList)" by (cases st')
  with Inr assms [of sl slList] show ?thesis by (simp add: read_lines_append)
qed

lemma get_static_leases_append_raises:
  assumes "\<And>sl slList. \<exists>e. read_lines (sl, slList) b = Inl e"
  shows "\<exists>e. get_static_leases (a @ b) = Inl e"
proof -
  from read_lines_append_raises [OF assms] obtain e where
    "read_lines (Lease_init (TypeVal STATIC) None None None, []) (a @ b) = Inl e"
    by blast
  then show ?thesis by (simp add: get_static_leases_def)
qed

text \<open>
  Claim C9 (fetching raises whenever a single entry carries more than one address or
  more than one hostname). The loop resets the lease under construction as soon as
  domain, address and hostname are all set, so an entry with the fields address,
  hostname, address does not raise: the first two fields complete a lease, the third
  starts the next one, and the function returns.
\<close>

theorem repeated_address_after_complete_lease:
  "repeats_field [Ipaddr ''10.0.0.1'', Hostname ''host1'', Ipaddr ''10.0.0.2'']
   \<and> get_static_leases (xpath_lines
        [(''example.com'', [[Ipaddr ''10.0.0.1'', Hostname ''host1'', Ipaddr ''10.0.0.2'']])])
     = Inr [\<lparr>domain = Some ''example.com'', hostname = Some ''host1'',
               ip = Some ''10.0.0.1'', state = UNCHANGED\<rparr>]"
  by code_simp

text \<open>
  The three kinds of line exclude each other, and a line raises exactly when its field
  is already set on the lease under construction.
\<close>

lemma startswith_ipaddr_not_domain: "startswith l ''<ipaddr>'' \<Longrightarrow> \<not> startswith l ''<domain>''"
  by (auto simp: startswith_def)

lemma startswith_append: "startswith l p \<Longrightarrow> \<exists>r. l = p @ r"
  by (metis append_take_drop_id startswith_def)

lemma startswith_hostname_not_domain:
  assumes "startswith l ''<hostname>''"
  shows "\<not> startswith l ''<domain>''"
proof -
  from startswith_append [OF assms] obtain r where "l = ''<hostname>'' @ r" by blast
  then show ?thesis by (simp add: startswith_def)
qed

lemma startswith_hostname_not_ipaddr:
  assumes "startswith l ''<hostname>''"
  shows "\<not> startswith l ''<ipaddr>''"
proof -
  from startswith_append [OF assms] obtain r where "l = ''<hostname>'' @ r" by blast
  then show ?thesis by (simp add: startswith_def)
qed

lemma read_line_raises_iff:
  "read_line (sl, slList) l = Inl e \<longleftrightarrow>
     (startswith l ''<ipaddr>'' \<and> ip sl \<noteq> None
        \<and> e = Exception (''Static lease IPADDR mismatch in domain '' @ py_str (domain sl))
      \<or> startswith l ''<hostname>'' \<and> hostname sl \<noteq> None
        \<and> e = Exception (''Static lease HOSTNAME mismatch in domain '' @ py_str (domain sl)))"
proof (cases "startswith l ''<domain>''")
  case True
  with startswith_ipaddr_not_domain startswith_hostname_not_domain show ?thesis
    by (auto simp: read_line_def)
next
  case d: False
  show ?thesis
  proof (cases "startswith l ''<ipaddr>''")
    case True
    with d startswith_hostname_not_ipaddr show ?thesis
      by (auto simp: read_line_def)
  next
    case False
    with d show ?thesis by (auto simp: read_line_def)
  qed
qed

lemma read_lines_raises_split:
  "read_lines st lines = Inl e \<Longrightarrow>
     \<exists>pre l post st'. lines = pre @ l # post \<and> read_lines st pre = Inr st'
       \<and> read_line st' l = Inl e"
proof (induction lines arbitrary: st)
  case Nil
  then show ?case by simp
next
  case (Cons x xs)
  show ?case
  proof (cases "read_line st x")
    case (Inl e')
    with Cons.prems have "e' = e" by simp
    with Inl have "x # xs = [] @ x # xs \<and> read_lines st [] = Inr st \<and> read_line st x = Inl e"
      by simp
    then show ?thesis by blast
  next
    case (Inr st1)
    with Cons.prems have "read_lines st1 xs = Inl e" by simp
    from Cons.IH [OF this] obtain pre l post st' where
      xs: "xs = pre @ l # post" and pre: "read_lines st1 pre = Inr st'"
      and l: "read_line st' l = Inl e" by blast
    from xs pre l Inr
    have "x # xs = (x # pre) @ l # post \<and> read_lines st (x # pre) = Inr st'
        \<and> read_line st' l = Inl e" by simp
    then show ?thesis by blast
  qed
qed

lemma read_lines_raises_at:
  "read_lines st pre = Inr st' \<Longrightarrow> read_line st' l = Inl e
   \<Longrightarrow> read_lines st (pre @ l # post) = Inl e"
  by (simp add: read_lines_append)

lemma get_static_leases_raises_read_lines:
  "get_static_leases lines = Inl e
   \<longleftrightarrow> read_lines (Lease_init (TypeVal STATIC) None None None, []) lines = Inl e"
  by (auto simp: get_static_leases_def split: sum.splits)

text \<open>
  Claim C9, amended: the function raises exactly when an address line arrives while
  the lease under construction already has an address, or a hostname line while it
  already has a hostname. The lease under construction is \<^verbatim>\<open>sl\<close> as the lines before
  have left it; the exception is \<^verbatim>\<open>Static lease IPADDR mismatch in domain\<close> or
  \<^verbatim>\<open>Static lease HOSTNAME mismatch in domain\<close> followed by the domain of that lease.
\<close>

theorem get_static_leases_raises_iff:
  "get_static_leases lines = Inl e \<longleftrightarrow>
     (\<exists>pre l post sl slList.
        lines = pre @ l # post
        \<and> read_lines (Lease_init (TypeVal STATIC) None None None, []) pre = Inr (sl, slList)
        \<and> (startswith l ''<ipaddr>'' \<and> ip sl \<noteq> None
             \<and> e = Exception (''Static lease IPADDR mismatch in domain '' @ py_str (domain sl))
           \<or> startswith l ''<hostname>'' \<and> hostname sl \<noteq> None
             \<and> e = Exception (''Static lease HOSTNAME mismatch in domain ''
                                @ py_str (domain sl))))"
  (is "?lhs \<longleftrightarrow> ?rhs")
proof
  assume ?lhs
  then have "read_lines (Lease_init (TypeVal STATIC) None None None, []) lines = Inl e"
    by (simp only: get_static_leases_raises_read_lines)
  from read_lines_raises_split [OF this] obtain pre l post st' where
    lines: "lines = pre @ l # post"
    and pre: "read_lines (Lease_init (TypeVal STATIC) None None None, []) pre = Inr st'"
    and l: "read_line st' l = Inl e" by blast
  obtain sl slList where st': "st' = (sl, slList)" by (cases st')
  from l have "startswith l ''<ipaddr>'' \<and> ip sl \<noteq> None
        \<and> e = Exception (''Static lease IPADDR mismatch in domain '' @ py_str (domain sl))
      \<or> startswith l ''<hostname>'' \<and> hostname sl \<noteq> None
        \<and> e = Exception (''Static lease HOSTNAME mismatch in domain '' @ py_str (domain sl))"
    by (simp only: st' read_line_raises_iff)
  with lines pre st' show ?rhs by blast
next
  assume ?rhs
  then obtain pre l post sl slList where
    lines: "lines = pre @ l # post"
    and pre: "read_lines (Lease_init (TypeVal STATIC) None None None, []) pre = Inr (sl, slList)"
    and l: "startswith l ''<ipaddr>'' \<and> ip sl \<noteq> None
        \<and> e = Exception (''Static lease IPADDR mismatch in domain '' @ py_str (domain sl))
      \<or> startswith l ''<hostname>'' \<and> hostname sl \<noteq> None
        \<and> e = Exception (''Static lease HOSTNAME mismatch in domain '' @ py_str (domain sl))"
    by blast
  from l have "read_line (sl, slList) l = Inl e" by (simp only: read_line_raises_iff)
  from read_lines_raises_at [OF pre this] lines
  have "read_lines (Lease_init (TypeVal STATIC) None None None, []) lines = Inl e" by simp
  then show ?lhs by (simp only: get_static_leases_raises_read_lines)
qed

text \<open>
  The theorem at an entry with the fields address, hostname, address, address: the
  first two fields complete a lease, the third is the address of the lease under
  construction when the fourth arrives.
\<close>

theorem get_static_leases_raises_iff_witness:
  "get_static_leases
     [''<domain>example.com</domain>'', ''<ipaddr>10.0.0.1</ipaddr>'',
      ''<hostname>host1</hostname>'', ''<ipaddr>10.0.0.2</ipaddr>'',
      ''<ipaddr>10.0.0.3</ipaddr>'']
   = Inl (Exception ''Static lease IPADDR mismatch in domain example.com'')"
proof -
  let ?pre = "[''<domain>example.com</domain>'', ''<ipaddr>10.0.0.1</ipaddr>'',
      ''<hostname>host1</hostname>'', ''<ipaddr>10.0.0.2</ipaddr>'']"
  let ?sl = "\<lparr>domain = Some ''example.com'', hostname = None,
      ip = Some ''10.0.0.2'', state = UNCHANGED\<rparr>"
  let ?slList = "[\<lparr>domain = Some ''example.com'', hostname = Some ''host1'',
      ip = Some ''10.0.0.1'', state = UNCHANGED\<rparr>]"
  have pre: "read_lines (Lease_init (TypeVal STATIC) None None None, []) ?pre
      = Inr (?sl, ?slList)" by code_simp
  have l: "startswith ''<ipaddr>10.0.0.3</ipaddr>'' ''<ipaddr>''" by code_simp
  have e: "''Static lease IPADDR mismatch in domain example.com''
      = ''Static lease IPADDR mismatch in domain '' @ py_str (domain ?sl)"
    by (simp add: py_str_def)
  have i: "ip ?sl \<noteq> None" by simp
  have "get_static_leases (?pre @ ''<ipaddr>10.0.0.3</ipaddr>'' # [])
      = Inl (Exception ''Static lease IPADDR mismatch in domain example.com'')"
  proof (rule iffD2 [OF get_static_leases_raises_iff], intro exI conjI)
    show "?pre @ ''<ipaddr>10.0.0.3</ipaddr>'' # [] = ?pre @ ''<ipaddr>10.0.0.3</ipaddr>'' # []"
      by (rule refl)
    show "read_lines (Lease_init (TypeVal STATIC) None None None, []) ?pre
        = Inr (?sl, ?slList)" by (rule pre)
    from l i e
    show "startswith ''<ipaddr>10.0.0.3</ipaddr>'' ''<ipaddr>'' \<and> ip ?sl \<noteq> None
          \<and> Exception ''Static lease IPADDR mismatch in domain example.com''
              = Exception (''Static lease IPADDR mismatch in domain '' @ py_str (domain ?sl))
        \<or> startswith ''<ipaddr>10.0.0.3</ipaddr>'' ''<hostname>'' \<and> hostname ?sl \<noteq> None
          \<and> Exception ''Static lease IPADDR mismatch in domain example.com''
              = Exception (''Static lease HOSTNAME mismatch in domain ''
                             @ py_str (domain ?sl))"
      by blast
  qed
  then show ?thesis by simp
qed

text \<open>
  A consequence: two addresses, or two hostnames, that directly follow a domain line
  raise whatever comes before and after.
\<close>

lemma get_static_leases_repeated_first_field:
  "(\<exists>e. get_static_leases
          (pre @ domain_line d # field_line (Ipaddr a) # field_line (Ipaddr b) # post) = Inl e)
   \<and> (\<exists>e. get_static_leases
          (pre @ domain_line d # field_line (Hostname h) # field_line (Hostname h') # post) = Inl e)
   \<and> get_static_leases (domain_line d # field_line (Ipaddr a) # field_line (Ipaddr b) # post)
       = Inl (Exception (''Static lease IPADDR mismatch in domain '' @ d))
   \<and> get_static_leases (domain_line d # field_line (Hostname h) # field_line (Hostname h') # post)
       = Inl (Exception (''Static lease HOSTNAME mismatch in domain '' @ d))"
proof (intro conjI)
  show "\<exists>e. get_static_leases
      (pre @ domain_line d # field_line (Ipaddr a) # field_line (Ipaddr b) # post) = Inl e"
    by (rule get_static_leases_append_raises) (simp only: read_lines_two_ipaddr, blast)
  show "\<exists>e. get_static_leases
      (pre @ domain_line d # field_line (Hostname h) # field_line (Hostname h') # post) = Inl e"
    by (rule get_static_leases_append_raises) (simp only: read_lines_two_hostname, blast)
  show "get_static_leases (domain_line d # field_line (Ipaddr a) # field_line (Ipaddr b) # post)
       = Inl (Exception (''Static lease IPADDR mismatch in domain '' @ d))"
    unfolding get_static_leases_def read_lines_two_ipaddr by simp
  show "get_static_leases (domain_line d # field_line (Hostname h) # field_line (Hostname h') # post)
       = Inl (Exception (''Static lease HOSTNAME mismatch in domain '' @ d))"
    unfolding get_static_leases_def read_lines_two_hostname by simp
qed

section \<open>The command file applied to a DNS store\<close>

text \<open>
  Every group of the command file replaces the records at one name by a fixed set, so
  the whole file is one \<open>override\<close>.
\<close>

lemma override_empty: "override s Map.empty = s"
  by (simp add: override_def)

lemma override_override: "override (override s m1) m2 = override s (m1 ++ m2)"
  by (auto simp: override_def map_add_def fun_eq_iff split: option.splits)

lemma override_idem: "override (override s m) m = override s m"
  by (auto simp: override_def fun_eq_iff split: option.splits)

lemma apply_file_append: "apply_file (a @ b) s = apply_file b (apply_file a s)"
  by (simp add: apply_file_def)

lemma group_delete: "apply_file [UpdateDelete n, Send] s = override s [n \<mapsto> {}]"
  by (auto simp: apply_file_def override_def fun_eq_iff)

lemma group_delete_add:
  "apply_file [UpdateDelete n, UpdateAdd n ttl ty d, Send] s = override s [n \<mapsto> {(ttl, ty, d)}]"
  by (auto simp: apply_file_def override_def fun_eq_iff)

lemma lease_lines_override:
  assumes "lease_lines lease = Inr ls"
  shows "\<exists>m. \<forall>s. apply_file ls s = override s m"
proof -
  from assms obtain i where i: "ip lease = Some i"
    by (auto simp: lease_lines_def split: option.splits)
  show ?thesis
  proof (cases "state lease = DELETED")
    case True
    with assms i have ls: "ls = [UpdateDelete (fqdn lease), Send] @ [UpdateDelete (ptr_name i), Send]"
      by (simp add: lease_lines_def)
    have "\<forall>s. apply_file ls s = override s ([fqdn lease \<mapsto> {}] ++ [ptr_name i \<mapsto> {}])"
      unfolding ls apply_file_append group_delete override_override by simp
    then show ?thesis by blast
  next
    case False
    with assms i have ls: "ls = [UpdateDelete (fqdn lease), UpdateAdd (fqdn lease) dnsTtl RR_A i, Send]
        @ [UpdateDelete (ptr_name i), UpdateAdd (ptr_name i) dnsTtl RR_PTR (fqdn lease), Send]"
      by (simp add: lease_lines_def py_str_def)
    have "\<forall>s. apply_file ls s = override s ([fqdn lease \<mapsto> {(dnsTtl, RR_A, i)}]
        ++ [ptr_name i \<mapsto> {(dnsTtl, RR_PTR, fqdn lease)}])"
      unfolding ls apply_file_append group_delete_add override_override by simp
    then show ?thesis by blast
  qed
qed

lemma write_file_override:
  "write_file leases = Inr f \<Longrightarrow> \<exists>m. \<forall>s. apply_file f s = override s m"
proof (induction leases arbitrary: f)
  case Nil
  then have "f = []" by simp
  then have "\<forall>s. apply_file f s = override s Map.empty"
    by (simp add: apply_file_def override_empty)
  then show ?case by blast
next
  case (Cons lease leases)
  from Cons.prems obtain ls rest where
    ls: "lease_lines lease = Inr ls" and rest: "write_file leases = Inr rest" and f: "f = ls @ rest"
    by (auto split: sum.splits)
  from lease_lines_override [OF ls] obtain m1 where m1: "\<forall>s. apply_file ls s = override s m1"
    by blast
  from Cons.IH [OF rest] obtain m2 where m2: "\<forall>s. apply_file rest s = override s m2"
    by blast
  have "\<forall>s. apply_file f s = override s (m1 ++ m2)"
    by (simp add: f apply_file_append m1 m2 override_override)
  then show ?case by blast
qed

text \<open>
  Claim C3 (applying the command file built from a list of leases twice in succession
  leaves the DNS store as applying it once). \<^verbatim>\<open>dns_update\<close> builds a file exactly
  when every lease has an address; for every such list, every file \<open>f\<close> it builds and
  every store \<open>s\<close>, the second application changes nothing.
\<close>

theorem apply_file_twice:
  assumes "write_file leases = Inr f"
  shows "apply_file f (apply_file f s) = apply_file f s"
proof -
  from write_file_override [OF assms] obtain m where m: "\<forall>s. apply_file f s = override s m"
    by blast
  then show ?thesis by (simp add: override_idem)
qed

text \<open>The theorem at the command file of one new lease and a store with old records.\<close>

theorem apply_file_twice_witness:
  "write_file [\<lparr>domain = Some ''example.com'', hostname = Some ''host1'',
                 ip = Some ''10.0.0.1'', state = NEW\<rparr>]
   = Inr [UpdateDelete ''host1.example.com.'',
          UpdateAdd ''host1.example.com.'' 3600 RR_A ''10.0.0.1'', Send,
          UpdateDelete ''1.0.0.10.in-addr.arpa'',
          UpdateAdd ''1.0.0.10.in-addr.arpa'' 3600 RR_PTR ''host1.example.com.'', Send]
   \<and> apply_file [UpdateDelete ''host1.example.com.'',
          UpdateAdd ''host1.example.com.'' 3600 RR_A ''10.0.0.1'', Send,
          UpdateDelete ''1.0.0.10.in-addr.arpa'',
          UpdateAdd ''1.0.0.10.in-addr.arpa'' 3600 RR_PTR ''host1.example.com.'', Send]
        (apply_file [UpdateDelete ''host1.example.com.'',
          UpdateAdd ''host1.example.com.'' 3600 RR_A ''10.0.0.1'', Send,
          UpdateDelete ''1.0.0.10.in-addr.arpa'',
          UpdateAdd ''1.0.0.10.in-addr.arpa'' 3600 RR_PTR ''host1.example.com.'', Send]
          (\<lambda>n. {(60, RR_A, ''192.168.1.1'')}))
      = apply_file [UpdateDelete ''host1.example.com.'',
          UpdateAdd ''host1.example.com.'' 3600 RR_A ''10.0.0.1'', Send,
          UpdateDelete ''1.0.0.10.in-addr.arpa'',
          UpdateAdd ''1.0.0.10.in-addr.arpa'' 3600 RR_PTR ''host1.example.com.'', Send]
          (\<lambda>n. {(60, RR_A, ''192.168.1.1'')})"
proof -
  let ?n = "\<lparr>domain = Some ''example.com'', hostname = Some ''host1'',
             ip = Some ''10.0.0.1'', state = NEW\<rparr>"
  let ?f = "[UpdateDelete ''host1.example.com.'',
          UpdateAdd ''host1.example.com.'' 3600 RR_A ''10.0.0.1'', Send,
          UpdateDelete ''1.0.0.10.in-addr.arpa'',
          UpdateAdd ''1.0.0.10.in-addr.arpa'' 3600 RR_PTR ''host1.example.com.'', Send]"
  have h: "write_file [?n] = Inr ?f" by code_simp
  from apply_file_twice [OF h, of "\<lambda>n. {(60, RR_A, ''192.168.1.1'')}"] h show ?thesis by blast
qed

section \<open>Reconciliation\<close>

lemma state_value_inj: "state_value a = state_value b \<Longrightarrow> a = b"
  by (cases a; cases b) simp_all

text \<open>
  Claim C1 (the keys of the leases in state \<^verbatim>\<open>DELETED\<close> are the keys of the cache
  that are not keys of the current leases). \<^verbatim>\<open>db_compare\<close> builds the lease of a
  cached record with \<^verbatim>\<open>Lease(record[0], record[1], record[2])\<close>, so the cached
  domain lands in the dropped argument \<^verbatim>\<open>type\<close>. With the cache holding
  \<open>(example.com, host2)\<close> and the current lease \<open>(example.com, host1)\<close> the only
  lease in state \<^verbatim>\<open>DELETED\<close> has the key \<open>(host2, 10.0.0.2)\<close>, which is no key of
  the cache.
\<close>

theorem db_compare_deleted_key_shifted:
  "db_compare (Leases [(''example.com'', ''host2'', ''10.0.0.2'')])
     [Lease_init (TypeVal STATIC) (Some ''example.com'') (Some ''host1'') (Some ''10.0.0.1'')]
   = Some (Inr [\<lparr>domain = Some ''example.com'', hostname = Some ''host1'',
                   ip = Some ''10.0.0.1'', state = NEW\<rparr>,
                \<lparr>domain = Some ''host2'', hostname = Some ''10.0.0.2'',
                   ip = None, state = DELETED\<rparr>])"
  by code_simp

text \<open>
  Claim C5 (a lease in state \<^verbatim>\<open>DELETED\<close> carries the domain, hostname and address of
  the cached record). For every cached record \<open>(d, h, i)\<close> the lease that
  \<^verbatim>\<open>db_compare\<close> builds has the hostname as its domain, the address as its hostname
  and no address, and \<^verbatim>\<open>dns_update\<close> raises \<^verbatim>\<open>AttributeError\<close> on it instead of
  writing the PTR delete.
\<close>

theorem deleted_lease_fields_shifted:
  "deleted_lease (d, h, i) = \<lparr>domain = Some h, hostname = Some i, ip = None, state = DELETED\<rparr>
   \<and> lease_lines (deleted_lease (d, h, i)) = Inl AttributeError"
  by (simp add: deleted_lease_def Lease_init_def lease_lines_def)

text \<open>
  Claim C7 (an empty list of current leases against a non-empty cache marks every
  cached key \<^verbatim>\<open>DELETED\<close>, and \<^verbatim>\<open>db_compare\<close> does not fail). With no current lease
  the statement that selects the deleted records has an empty \<^verbatim>\<open>VALUES\<close> list and
  \<^verbatim>\<open>db_compare\<close> ends with \<^verbatim>\<open>OperationalError\<close>, whatever the cache holds.
\<close>

theorem db_compare_no_leases_raises:
  "db_compare (Leases K) [] = Some (Inl OperationalError)"
  by (simp add: db_compare_def get_db_connection_def cursor_def select_not_in_def)

text \<open>
  Claim C4 (scenario: the cache has \<open>host1.example.com\<close> at 10.0.0.1, the
  configuration has it at 10.0.0.2). As the claim states it, the command file deletes
  the PTR record at \<open>1.0.0.10.in-addr.arpa\<close>; the file that is written has no such
  line.
\<close>

theorem updated_lease_old_ptr_not_deleted:
  "(case db_compare (Leases [(''example.com'', ''host1'', ''10.0.0.1'')])
           [Lease_init (TypeVal STATIC) (Some ''example.com'') (Some ''host1'') (Some ''10.0.0.2'')] of
      Some (Inr leases) \<Rightarrow>
        (case write_file leases of
           Inl e \<Rightarrow> None
         | Inr f \<Rightarrow> Some (UpdateDelete ''1.0.0.10.in-addr.arpa'' \<in> set f))
    | _ \<Rightarrow> None) = Some False"
  by code_simp

text \<open>
  Claim C4, amended: the lease is classified \<^verbatim>\<open>UPDATED\<close>, and the command file
  deletes the records at \<open>host1.example.com.\<close>, adds the A record 10.0.0.2, deletes the
  records at \<open>2.0.0.10.in-addr.arpa\<close> (the name of the new address) and adds the PTR
  record to \<open>host1.example.com.\<close> there.
\<close>

theorem updated_lease_scenario:
  "db_compare (Leases [(''example.com'', ''host1'', ''10.0.0.1'')])
     [Lease_init (TypeVal STATIC) (Some ''example.com'') (Some ''host1'') (Some ''10.0.0.2'')]
   = Some (Inr [\<lparr>domain = Some ''example.com'', hostname = Some ''host1'',
                   ip = Some ''10.0.0.2'', state = UPDATED\<rparr>])
   \<and> write_file [\<lparr>domain = Some ''example.com'', hostname = Some ''host1'',
                    ip = Some ''10.0.0.2'', state = UPDATED\<rparr>]
   = Inr [UpdateDelete ''host1.example.com.'',
          UpdateAdd ''host1.example.com.'' 3600 RR_A ''10.0.0.2'', Send,
          UpdateDelete ''2.0.0.10.in-addr.arpa'',
          UpdateAdd ''2.0.0.10.in-addr.arpa'' 3600 RR_PTR ''host1.example.com.'', Send]"
  by code_simp

section \<open>The main loop\<close>

text \<open>
  Claim C6 (without the force flag, a lease in state \<^verbatim>\<open>UNCHANGED\<close> contributes no
  line to the command file). The loop computes \<^verbatim>\<open>processableLeases\<close> but calls
  \<^verbatim>\<open>dns_update(leases)\<close>. With \<open>host1\<close> cached at its address and \<open>host2\<close> new,
  the file sent to nsupdate deletes and adds the records of \<open>host1\<close> as well.
\<close>

theorem cycle_updates_unchanged_lease:
  "cycle False (\<lambda>f. True)
     [''<domain>example.com</domain>'',
      ''<hostname>host1</hostname>'', ''<ipaddr>10.0.0.1</ipaddr>'',
      ''<hostname>host2</hostname>'', ''<ipaddr>10.0.0.2</ipaddr>'']
     (Leases [(''example.com'', ''host1'', ''10.0.0.1'')])
   = Some (Inr (Applied
        [UpdateDelete ''host1.example.com.'',
         UpdateAdd ''host1.example.com.'' 3600 RR_A ''10.0.0.1'', Send,
         UpdateDelete ''1.0.0.10.in-addr.arpa'',
         UpdateAdd ''1.0.0.10.in-addr.arpa'' 3600 RR_PTR ''host1.example.com.'', Send,
         UpdateDelete ''host2.example.com.'',
         UpdateAdd ''host2.example.com.'' 3600 RR_A ''10.0.0.2'', Send,
         UpdateDelete ''2.0.0.10.in-addr.arpa'',
         UpdateAdd ''2.0.0.10.in-addr.arpa'' 3600 RR_PTR ''host2.example.com.'', Send]),
      Leases [(''example.com'', ''host1'', ''10.0.0.1''), (''example.com'', ''host2'', ''10.0.0.2'')])"
  by code_simp

section \<open>The cache after a pass\<close>

text \<open>
  Claim C2 (after a pass whose \<^verbatim>\<open>dns_update\<close> and \<^verbatim>\<open>db_update\<close> both succeeded, the
  cache holds exactly one record per key of the current leases and no other key).
  \<^verbatim>\<open>db_compare\<close> formats the keys of the current leases into its statement as
  double-quoted tokens, and SQLite reads the token \<^verbatim>\<open>"hostname"\<close> as the column. With
  \<open>(lan, old)\<close> in the cache and the one current lease \<open>(lan, hostname)\<close> the
  statement compares the key of the cached row with \<open>(lan, old)\<close>, its own key, and
  selects nothing: no lease is in state \<^verbatim>\<open>DELETED\<close>, the pass applies the command file
  of the new lease and updates the cache, and the row of \<open>(lan, old)\<close> is still there.
\<close>

theorem cycle_leaves_stale_row:
  "cycle False (\<lambda>f. True)
     [''<domain>lan</domain>'', ''<hostname>hostname</hostname>'',
      ''<ipaddr>10.0.0.1</ipaddr>'']
     (Leases [(''lan'', ''old'', ''10.0.0.9'')])
   = Some (Inr (Applied
        [UpdateDelete ''hostname.lan.'',
         UpdateAdd ''hostname.lan.'' 3600 RR_A ''10.0.0.1'', Send,
         UpdateDelete ''1.0.0.10.in-addr.arpa'',
         UpdateAdd ''1.0.0.10.in-addr.arpa'' 3600 RR_PTR ''hostname.lan.'', Send]),
      Leases [(''lan'', ''old'', ''10.0.0.9''), (''lan'', ''hostname'', ''10.0.0.1'')])"
  by code_simp

text \<open>
  Claim C8 (when applying the command file fails, the cache is not written in that
  pass, and the next pass computes the same difference). When \<^verbatim>\<open>dns_update\<close> raises,
  the pass ends with that exception before \<^verbatim>\<open>db_update\<close> is called; the cache file is
  the one the pass started with, and \<^verbatim>\<open>db_compare\<close> on it gives the same list again.
\<close>

theorem apply_failure_keeps_cache:
  assumes "get_static_leases lines = Inr fetched"
    and "db_compare db fetched = Some (Inr leases)"
    and "processableLeases dnsForceUpdate leases \<noteq> []"
    and "dns_update nsupdate leases = Inl e"
  shows "cycle dnsForceUpdate nsupdate lines db = Some (Inl e, db)
         \<and> (case cycle dnsForceUpdate nsupdate lines db of
              None \<Rightarrow> False
            | Some (result, db') \<Rightarrow> db_compare db' fetched = Some (Inr leases))"
  using assms by (simp add: cycle_def)

text \<open>The theorem at a pass with one new lease on which nsupdate exits with an error.\<close>

theorem apply_failure_keeps_cache_witness:
  "get_static_leases
     [''<domain>example.com</domain>'', ''<hostname>host1</hostname>'',
      ''<ipaddr>10.0.0.1</ipaddr>'']
   = Inr [\<lparr>domain = Some ''example.com'', hostname = Some ''host1'',
             ip = Some ''10.0.0.1'', state = UNCHANGED\<rparr>]
   \<and> db_compare (Leases [])
        [\<lparr>domain = Some ''example.com'', hostname = Some ''host1'',
           ip = Some ''10.0.0.1'', state = UNCHANGED\<rparr>]
      = Some (Inr [\<lparr>domain = Some ''example.com'', hostname = Some ''host1'',
                      ip = Some ''10.0.0.1'', state = NEW\<rparr>])
   \<and> processableLeases False
        [\<lparr>domain = Some ''example.com'', hostname = Some ''host1'',
           ip = Some ''10.0.0.1'', state = NEW\<rparr>] \<noteq> []
   \<and> dns_update (\<lambda>f. False)
        [\<lparr>domain = Some ''example.com'', hostname = Some ''host1'',
           ip = Some ''10.0.0.1'', state = NEW\<rparr>] = Inl CalledProcessError
   \<and> cycle False (\<lambda>f. False)
        [''<domain>example.com</domain>'', ''<hostname>host1</hostname>'',
         ''<ipaddr>10.0.0.1</ipaddr>''] (Leases [])
      = Some (Inl CalledProcessError, Leases [])"
proof -
  let ?lines = "[''<domain>example.com</domain>'', ''<hostname>host1</hostname>'',
      ''<ipaddr>10.0.0.1</ipaddr>'']"
  let ?l = "\<lparr>domain = Some ''example.com'', hostname = Some ''host1'',
             ip = Some ''10.0.0.1'', state = UNCHANGED\<rparr>"
  let ?n = "\<lparr>domain = Some ''example.com'', hostname = Some ''host1'',
             ip = Some ''10.0.0.1'', state = NEW\<rparr>"
  have h1: "get_static_leases ?lines = Inr [?l]" by code_simp
  have h2: "db_compare (Leases []) [?l] = Some (Inr [?n])" by code_simp
  have h3: "processableLeases False [?n] \<noteq> []" by code_simp
  have h4: "dns_update (\<lambda>f. False) [?n] = Inl CalledProcessError" by code_simp
  from apply_failure_keeps_cache [OF h1 h2 h3 h4] h1 h2 h3 h4 show ?thesis by blast
qed

section \<open>Opening the cache\<close>

text \<open>
  Claim C10 (when opening or initialising the cache fails, \<^verbatim>\<open>get_db_connection\<close>
  returns \<^verbatim>\<open>None\<close>). When the \<^verbatim>\<open>CREATE TABLE\<close> statement fails the connection
  exists already; the handler closes it and the function returns it.
\<close>

theorem init_failure_connection_not_None:
  "fst (get_db_connection InitFails) \<noteq> None"
  by (simp add: get_db_connection_def)

text \<open>
  Claim C10, amended: in both cases the error message is printed and the function
  returns. When \<^verbatim>\<open>connect\<close> fails it returns \<^verbatim>\<open>None\<close> and \<^verbatim>\<open>con.cursor()\<close> in
  \<^verbatim>\<open>db_compare\<close> raises \<^verbatim>\<open>AttributeError\<close>; when the initialisation fails it
  returns the closed connection and \<^verbatim>\<open>con.cursor()\<close> raises \<^verbatim>\<open>ProgrammingError\<close>.
\<close>

theorem cache_failure_faults_on_first_use:
  "get_db_connection OpenFails = (None, True)
   \<and> get_db_connection InitFails = (Some Closed, True)
   \<and> db_compare OpenFails leases = Some (Inl AttributeError)
   \<and> db_compare InitFails leases = Some (Inl ProgrammingError)"
  by (simp add: get_db_connection_def db_compare_def cursor_def)

end
